theory Spec2Isabelle
  imports Main "HOL-Library.Word"
begin

section \<open>Host values, native handles and raised errors\<close>

text \<open>
  The binding adapter of \<^verbatim>\<open>ext/mxnet/symbol.c\<close> moves Ruby values (\<^verbatim>\<open>VALUE\<close>) into the
  arrays the native engine wants. A \<^verbatim>\<open>VALUE\<close> is modelled by the datatype \<open>rvalue\<close>: the
  immediate and container kinds that the code tests with \<^verbatim>\<open>RB_TYPE_P\<close>, the classes it
  tests with \<^verbatim>\<open>rb_obj_is_kind_of\<close>, and one constructor for an object of any other class.
  A native handle (\<^verbatim>\<open>void *\<close>) is \<open>NULL\<close> or an address.
\<close>

datatype ptr = NULL | Addr nat

type_synonym mx_uint = "32 word"
type_synonym c_int = "32 word"  \<comment> \<open>a C \<^verbatim>\<open>int\<close>, read as signed with \<open>sint\<close>\<close>

datatype rvalue =
    Qnil
  | RSym string
  | RStr string
  | RInt int
  | RArray "rvalue list"
  | RHash "(rvalue \<times> rvalue) list"
  | RNDArray ptr
  | RContext c_int c_int
  | RSymbol ptr
  | RExecutor ptr
  | RObject string

text \<open>
  A Ruby Hash is kept as the list of its entries in enumeration order; \<^verbatim>\<open>rb_hash_lookup2\<close>
  is \<open>map_of\<close> on it, with the default returned for a key that is not there. Where the
  code passes \<^verbatim>\<open>Qundef\<close> as the default and tests for it, the model tests \<open>map_of\<close> for
  \<open>None\<close>: \<^verbatim>\<open>Qundef\<close> is no Ruby value and cannot be stored in a Hash.
\<close>

type_synonym rhash = "(rvalue \<times> rvalue) list"

definition rb_hash_lookup2 :: "rhash \<Rightarrow> rvalue \<Rightarrow> rvalue \<Rightarrow> rvalue" where
  "rb_hash_lookup2 h k dflt = (case map_of h k of None \<Rightarrow> dflt | Some v \<Rightarrow> v)"

definition rb_hash_lookup :: "rhash \<Rightarrow> rvalue \<Rightarrow> rvalue" where
  "rb_hash_lookup h k = rb_hash_lookup2 h k Qnil"

text \<open>
  \<^verbatim>\<open>rb_raise\<close> leaves the function with an exception: its class and its message. The
  message is the format string with its arguments in place: a literal piece, a value
  printed with \<^verbatim>\<open>PRIsVALUE\<close>, or the class of a value (\<^verbatim>\<open>CLASS_OF\<close>).
\<close>

datatype frag = Lit string | Val rvalue | ClassOf rvalue

datatype rb_error =
    ArgError "frag list"
  | TypeError "frag list"
  | RangeError "frag list"
  | MXNetError string

text \<open>\<^verbatim>\<open>rb_obj_is_kind_of(v, mxnet_cNDArray)\<close> and \<^verbatim>\<open>rb_obj_is_kind_of(v, mxnet_cContext)\<close>.\<close>

fun is_NDArray :: "rvalue \<Rightarrow> bool" where
  "is_NDArray (RNDArray h) = True"
| "is_NDArray v = False"

fun is_Context :: "rvalue \<Rightarrow> bool" where
  "is_Context (RContext t i) = True"
| "is_Context v = False"

text \<open>
  Modelled from the spec: \<^verbatim>\<open>mxnet_get_handle\<close> is declared in \<^verbatim>\<open>mxnet_internal.h\<close> and
  defined outside this file. The objects that wrap a native handle (tensor, symbolic
  graph, execution) give it back; for any other value the conversion raises a type error.
\<close>

fun mxnet_get_handle :: "rvalue \<Rightarrow> rb_error + ptr" where
  "mxnet_get_handle (RNDArray h) = Inr h"
| "mxnet_get_handle (RSymbol h) = Inr h"
| "mxnet_get_handle (RExecutor h) = Inr h"
| "mxnet_get_handle v = Inl (TypeError [Lit ''no native handle in '', ClassOf v])"

section \<open>Input resolution: \<^verbatim>\<open>get_ndarray_inputs\<close>\<close>

text \<open>
  The loop of the \<^verbatim>\<open>T_ARRAY\<close> branch: every element must be a tensor, and its handle goes
  to the same position of \<^verbatim>\<open>arg_handles\<close>. The first element that is not a tensor raises.
\<close>

fun array_handles :: "rvalue list \<Rightarrow> rb_error + ptr list" where
  "array_handles [] = Inr []"
| "array_handles (ndary # rest) =
     (if \<not> is_NDArray ndary
      then Inl (TypeError [Lit ''Only accept Array of NDArrays or Hash of Symbol to NDArray''])
      else (case mxnet_get_handle ndary of
              Inl e \<Rightarrow> Inl e
            | Inr h \<Rightarrow> (case array_handles rest of
                          Inl e \<Rightarrow> Inl e
                        | Inr hs \<Rightarrow> Inr (h # hs))))"

text \<open>
  The loop of the \<^verbatim>\<open>T_HASH\<close> branch, over the names in order. It returns the elements
  pushed on \<^verbatim>\<open>arg_arrays\<close> and the entries written to \<^verbatim>\<open>arg_handles\<close>.
\<close>

fun hash_inputs ::
  "string \<Rightarrow> rhash \<Rightarrow> bool \<Rightarrow> rvalue list \<Rightarrow> rb_error + (rvalue list \<times> ptr list)" where
  "hash_inputs arg_key args allow_missing [] = Inr ([], [])"
| "hash_inputs arg_key args allow_missing (name # names) =
     (case map_of args name of
        Some ndary \<Rightarrow>
          (if \<not> is_NDArray ndary
           then Inl (TypeError [Lit ''Only accept array of NDArrays or hash of Symbol to NDArray''])
           else (case mxnet_get_handle ndary of
                   Inl e \<Rightarrow> Inl e
                 | Inr h \<Rightarrow> (case hash_inputs arg_key args allow_missing names of
                               Inl e \<Rightarrow> Inl e
                             | Inr (vs, hs) \<Rightarrow> Inr (ndary # vs, h # hs))))
      | None \<Rightarrow>
          (if allow_missing
           then (case hash_inputs arg_key args allow_missing names of
                   Inl e \<Rightarrow> Inl e
                 | Inr (vs, hs) \<Rightarrow> Inr (Qnil # vs, NULL # hs))
           else Inl (ArgError [Lit ''key `'', Val name, Lit ''` is missing in `'',
                               Lit arg_key, Lit ''`''])))"

text \<open>
  \<^verbatim>\<open>get_ndarray_inputs(arg_key, args, arg_names, allow_missing, &out_handles)\<close>: the
  result is the returned \<^verbatim>\<open>arg_arrays\<close> together with the array stored in
  \<^verbatim>\<open>*out_handles\<close>. \<open>arg_names\<close> is the content of the Ruby Array of names.
\<close>

fun get_ndarray_inputs ::
  "string \<Rightarrow> rvalue \<Rightarrow> rvalue list \<Rightarrow> bool \<Rightarrow> rb_error + (rvalue \<times> ptr list)" where
  "get_ndarray_inputs arg_key (RArray elems) arg_names allow_missing =
     (if length elems \<noteq> length arg_names
      then Inl (ArgError [Lit ''Length of '', Lit arg_key,
                          Lit '' does not match the number of arguments''])
      else (case array_handles elems of
              Inl e \<Rightarrow> Inl e
            | Inr hs \<Rightarrow> Inr (RArray elems, hs)))"
| "get_ndarray_inputs arg_key (RHash h) arg_names allow_missing =
     (case hash_inputs arg_key h allow_missing arg_names of
        Inl e \<Rightarrow> Inl e
      | Inr (vs, hs) \<Rightarrow> Inr (RArray vs, hs))"
| "get_ndarray_inputs arg_key v arg_names allow_missing =
     Inl (TypeError [Lit ''Only accept Array of NDArrays or Hash of Symbol to NDArray''])"

text \<open>The handle of a tensor, for stating what the handle array holds.\<close>

fun handle_of :: "rvalue \<Rightarrow> ptr" where
  "handle_of (RNDArray h) = h"
| "handle_of v = NULL"

section \<open>Numeric conversion\<close>

text \<open>
  \<^verbatim>\<open>NUM2UINT\<close> of the Ruby C interface: an Integer that fits is converted (a negative one
  not below \<^verbatim>\<open>INT_MIN\<close> wraps around), an Integer out of range raises a range error, and a
  value with no implicit conversion to Integer (nil, a Symbol, a String, an Array, a
  Hash, an object of this binding) raises a type error.
\<close>

fun NUM2UINT :: "rvalue \<Rightarrow> rb_error + mx_uint" where
  "NUM2UINT (RInt i) =
     (if i < - (2 ^ 31)
      then Inl (RangeError [Lit ''integer '', Val (RInt i),
                            Lit '' too small to convert to unsigned int''])
      else if 2 ^ 32 - 1 < i
      then Inl (RangeError [Lit ''integer '', Val (RInt i),
                            Lit '' too big to convert to unsigned int''])
      else Inr (word_of_int i))"
| "NUM2UINT v = Inl (TypeError [Lit ''no implicit conversion of '', ClassOf v,
                                Lit '' into Integer''])"

text \<open>
  A \<^verbatim>\<open>for\<close> loop that converts one element after the other and is left by the first
  element that raises.
\<close>

fun for_each :: "('a \<Rightarrow> rb_error + 'b) \<Rightarrow> 'a list \<Rightarrow> rb_error + 'b list" where
  "for_each f [] = Inr []"
| "for_each f (x # xs) =
     (case f x of
        Inl e \<Rightarrow> Inl e
      | Inr y \<Rightarrow> (case for_each f xs of Inl e \<Rightarrow> Inl e | Inr ys \<Rightarrow> Inr (y # ys)))"

section \<open>The native engine and the calls made to it\<close>

text \<open>
  The arguments of \<^verbatim>\<open>MXExecutorBindEX\<close>, in the order of the call. An array argument is
  the content of the buffer the code allocated, so its length is the allocated number
  of entries; the three arrays of the device map are \<open>None\<close> when the code passes
  \<^verbatim>\<open>NULL\<close>.
\<close>

record bind_call =
  bx_symbol_handle :: ptr
  bx_dev_type :: c_int
  bx_dev_id :: c_int
  bx_num_map_keys :: mx_uint
  bx_map_keys :: "string list option"
  bx_map_dev_types :: "c_int list option"
  bx_map_dev_ids :: "c_int list option"
  bx_len :: mx_uint
  bx_in_args :: "ptr list"
  bx_arg_grad_store :: "ptr list"
  bx_grad_req_type :: "mx_uint list"
  bx_aux_states_len :: mx_uint
  bx_aux_states :: "ptr list"
  bx_shared_exec :: ptr

datatype native_call =
    ListArguments ptr
  | ListAuxiliaryStates ptr
  | ExecutorBindEX bind_call

text \<open>
  What this file takes from outside: the three entry points of the engine that
  \<^verbatim>\<open>symbol_bind\<close> reaches (each returns the engine's error message or its result), and
  the table \<^verbatim>\<open>mxnet_grad_req_map()\<close> from requirement label to numeric code, which is
  built in another file of the binding.
\<close>

record env =
  MXSymbolListArguments :: "ptr \<Rightarrow> string + string list"
  MXSymbolListAuxiliaryStates :: "ptr \<Rightarrow> string + string list"
  MXExecutorBindEX :: "bind_call \<Rightarrow> string + ptr"
  mxnet_grad_req_map :: rhash

text \<open>
  A computation of the adapter ends with a value or a raised error, and leaves the list
  of the native calls it made, oldest first. \<open>host_step\<close> is a step that stays in the
  host; \<open>CHECK_CALL\<close> is the macro around a native call, which raises the engine's
  message when the call reports a failure; \<open>and_then\<close> runs the rest after a step
  that did not raise.
\<close>

type_synonym 'a outcome = "(rb_error + 'a) \<times> native_call list"

definition host_step :: "rb_error + 'a \<Rightarrow> 'a outcome" where
  "host_step r = (r, [])"

definition CHECK_CALL :: "native_call \<Rightarrow> string + 'a \<Rightarrow> 'a outcome" where
  "CHECK_CALL c r = ((case r of Inl msg \<Rightarrow> Inl (MXNetError msg) | Inr a \<Rightarrow> Inr a), [c])"

definition and_then :: "'a outcome \<Rightarrow> ('a \<Rightarrow> 'b outcome) \<Rightarrow> 'b outcome" where
  "and_then m f =
     (case m of
        (Inl e, t) \<Rightarrow> (Inl e, t)
      | (Inr a, t) \<Rightarrow> (case f a of (r, t') \<Rightarrow> (r, t @ t')))"

section \<open>Name listing\<close>

definition symbol_list_arguments :: "env \<Rightarrow> rvalue \<Rightarrow> rvalue list outcome" where
  "symbol_list_arguments en obj =
     and_then (host_step (mxnet_get_handle obj)) (\<lambda>handle.
     and_then (CHECK_CALL (ListArguments handle) (MXSymbolListArguments en handle)) (\<lambda>args.
     host_step (Inr (map RSym args))))"

definition symbol_list_auxiliary_states :: "env \<Rightarrow> rvalue \<Rightarrow> rvalue list outcome" where
  "symbol_list_auxiliary_states en obj =
     and_then (host_step (mxnet_get_handle obj)) (\<lambda>handle.
     and_then (CHECK_CALL (ListAuxiliaryStates handle) (MXSymbolListAuxiliaryStates en handle))
       (\<lambda>states.
     host_step (Inr (map RSym states))))"

section \<open>The steps of \<^verbatim>\<open>symbol_bind\<close>\<close>

text \<open>
  \<^verbatim>\<open>rb_scan_args\<close> and \<^verbatim>\<open>rb_get_kwargs\<close> hand the function its two positional
  arguments and the five keyword values; a keyword that was not given is \<^verbatim>\<open>Qundef\<close>,
  here \<open>None\<close>.
\<close>

record bind_kwargs =
  kw_args_grad :: "rvalue option"
  kw_grad_req :: "rvalue option"
  kw_aux_states :: "rvalue option"
  kw_group2ctx :: "rvalue option"
  kw_shared_exec :: "rvalue option"

text \<open>\<^verbatim>\<open>if (v == Qundef) v = Qnil;\<close>\<close>

definition undef_to_nil :: "rvalue option \<Rightarrow> rvalue" where
  "undef_to_nil v = (case v of None \<Rightarrow> Qnil | Some x \<Rightarrow> x)"

fun RARRAY_LEN :: "rvalue \<Rightarrow> nat" where
  "RARRAY_LEN (RArray xs) = length xs"
| "RARRAY_LEN v = 0"

definition check_context :: "rvalue \<Rightarrow> rb_error + unit" where
  "check_context ctx =
     (if \<not> is_Context ctx then Inl (TypeError [Lit ''Context type error'']) else Inr ())"

text \<open>
  The gradient buffers: without \<^verbatim>\<open>args_grad\<close> the handle array is one \<^verbatim>\<open>NULL\<close> for each
  resolved argument and the value stays nil; otherwise the input is resolved against
  the argument names with missing entries allowed.
\<close>

definition setup_args_grad ::
  "rvalue option \<Rightarrow> rvalue \<Rightarrow> rvalue list \<Rightarrow> rb_error + (rvalue \<times> ptr list)" where
  "setup_args_grad args_grad args listed_arguments =
     (if undef_to_nil args_grad = Qnil
      then Inr (Qnil, replicate (RARRAY_LEN args) NULL)
      else get_ndarray_inputs ''args_grad'' (undef_to_nil args_grad) listed_arguments True)"

definition setup_aux_states :: "rvalue option \<Rightarrow> rvalue list \<Rightarrow> rb_error + (rvalue \<times> ptr list)" where
  "setup_aux_states aux_states aux_names =
     get_ndarray_inputs ''aux_states''
       (if undef_to_nil aux_states = Qnil then RArray [] else undef_to_nil aux_states)
       aux_names False"

text \<open>
  The gradient requirements (\<^verbatim>\<open>/* setup requirements */\<close>). A keyword that was not given
  is the symbol \<^verbatim>\<open>:write\<close>, a String is interned (\<^verbatim>\<open>rb_str_intern\<close>), and then the kind of
  the value selects the branch. The result is the value of \<^verbatim>\<open>grad_req\<close> after these two
  replacements, which the execution object keeps, and the content of \<^verbatim>\<open>reqs_array\<close>.
\<close>

definition default_grad_req :: "rvalue option \<Rightarrow> rvalue" where
  "default_grad_req grad_req = (case grad_req of None \<Rightarrow> RSym ''write'' | Some v \<Rightarrow> v)"

fun intern_grad_req :: "rvalue \<Rightarrow> rvalue" where
  "intern_grad_req (RStr s) = RSym s"
| "intern_grad_req v = v"

fun reqs_array_of :: "rhash \<Rightarrow> rvalue \<Rightarrow> rvalue list \<Rightarrow> rb_error + mx_uint list" where
  "reqs_array_of grad_req_map (RSym s) listed_arguments =
     (if map_of grad_req_map (RSym s) = None
      then Inl (ArgError [Lit ''grad_req must be in '', Val (RHash grad_req_map)])
      else (case NUM2UINT (rb_hash_lookup grad_req_map (RSym s)) of
              Inl e \<Rightarrow> Inl e
            | Inr req \<Rightarrow> Inr (replicate (length listed_arguments) req)))"
| "reqs_array_of grad_req_map (RArray items) listed_arguments =
     for_each (\<lambda>item. NUM2UINT (rb_hash_lookup grad_req_map item)) items"
| "reqs_array_of grad_req_map (RHash grad_req) listed_arguments =
     for_each (\<lambda>name. NUM2UINT (rb_hash_lookup2 grad_req name (RInt 0))) listed_arguments"
| "reqs_array_of grad_req_map v listed_arguments =
     Inl (ArgError [Lit ''Invalid type of grad_req ('', ClassOf v,
                    Lit '' for Symbol, Array, or Hash)''])"

definition setup_requirements ::
  "env \<Rightarrow> rvalue option \<Rightarrow> rvalue list \<Rightarrow> rb_error + (rvalue \<times> mx_uint list)" where
  "setup_requirements en grad_req listed_arguments =
     (let grad_req' = intern_grad_req (default_grad_req grad_req)
      in case reqs_array_of (mxnet_grad_req_map en) grad_req' listed_arguments of
           Inl e \<Rightarrow> Inl e
         | Inr reqs_array \<Rightarrow> Inr (grad_req', reqs_array))"

text \<open>
  Modelled from the spec: \<^verbatim>\<open>mxnet_context_get_device_type_id\<close> and
  \<^verbatim>\<open>mxnet_context_get_device_id\<close> are defined outside this file. A device context gives
  its device-type code and its device-index code; any other value raises a type error.
\<close>

fun mxnet_context_get_device_type_id :: "rvalue \<Rightarrow> rb_error + c_int" where
  "mxnet_context_get_device_type_id (RContext t i) = Inr t"
| "mxnet_context_get_device_type_id v = Inl (TypeError [Lit ''Context type error''])"

fun mxnet_context_get_device_id :: "rvalue \<Rightarrow> rb_error + c_int" where
  "mxnet_context_get_device_id (RContext t i) = Inr i"
| "mxnet_context_get_device_id v = Inl (TypeError [Lit ''Context type error''])"

text \<open>
  \<^verbatim>\<open>StringValueCStr\<close> after the conversion of a Symbol key to its String: a String without
  a null byte gives its characters; a String with one raises an argument error; a value
  that is no String raises a type error.
\<close>

fun group_key_cstr :: "rvalue \<Rightarrow> rb_error + string" where
  "group_key_cstr (RSym s) =
     (if CHR 0x00 \<in> set s then Inl (ArgError [Lit ''string contains null byte'']) else Inr s)"
| "group_key_cstr (RStr s) =
     (if CHR 0x00 \<in> set s then Inl (ArgError [Lit ''string contains null byte'']) else Inr s)"
| "group_key_cstr v = Inl (TypeError [Lit ''no implicit conversion of '', ClassOf v,
                                      Lit '' into String''])"

text \<open>One round of \<^verbatim>\<open>rb_hash_foreach\<close>: the entry written at the cursor of the three arrays.\<close>

fun symbol_bind_group2ctx_process_i :: "rvalue \<times> rvalue \<Rightarrow> rb_error + (string \<times> c_int \<times> c_int)" where
  "symbol_bind_group2ctx_process_i (key, val) =
     (case group_key_cstr key of
        Inl e \<Rightarrow> Inl e
      | Inr k \<Rightarrow> (case mxnet_context_get_device_type_id val of
                    Inl e \<Rightarrow> Inl e
                  | Inr t \<Rightarrow> (case mxnet_context_get_device_id val of
                                Inl e \<Rightarrow> Inl e
                              | Inr i \<Rightarrow> Inr (k, t, i))))"

text \<open>
  The device map: the value of \<^verbatim>\<open>group2ctx\<close> that the execution object keeps, the number
  of keys, and the three arrays. \<^verbatim>\<open>Check_Type\<close> raises for a value that is no Hash.
\<close>

fun group2ctx_arrays ::
  "rvalue \<Rightarrow> rb_error + (mx_uint \<times> string list option \<times> c_int list option \<times> c_int list option)" where
  "group2ctx_arrays Qnil = Inr (0, None, None, None)"
| "group2ctx_arrays (RHash h) =
     (case for_each symbol_bind_group2ctx_process_i h of
        Inl e \<Rightarrow> Inl e
      | Inr entries \<Rightarrow>
          Inr (of_nat (length h), Some (map fst entries),
               Some (map (fst \<circ> snd) entries), Some (map (snd \<circ> snd) entries)))"
| "group2ctx_arrays v =
     Inl (TypeError [Lit ''wrong argument type '', ClassOf v, Lit '' (expected Hash)''])"

definition setup_group2ctx ::
  "rvalue option \<Rightarrow>
   rb_error + (rvalue \<times> mx_uint \<times> string list option \<times> c_int list option \<times> c_int list option)" where
  "setup_group2ctx group2ctx =
     (case group2ctx_arrays (undef_to_nil group2ctx) of
        Inl e \<Rightarrow> Inl e
      | Inr arrays \<Rightarrow> Inr (undef_to_nil group2ctx, arrays))"

definition setup_shared_exec :: "rvalue option \<Rightarrow> rb_error + ptr" where
  "setup_shared_exec shared_exec =
     (if undef_to_nil shared_exec \<noteq> Qnil then mxnet_get_handle (undef_to_nil shared_exec)
      else Inr NULL)"

section \<open>The bind operation\<close>

text \<open>
  Modelled from the spec: \<^verbatim>\<open>mxnet_executor_new\<close> and the three setters
  \<^verbatim>\<open>mxnet_executor_set_arg_arrays\<close>, \<^verbatim>\<open>mxnet_executor_set_grad_arrays\<close> and
  \<^verbatim>\<open>mxnet_executor_set_aux_arrays\<close> are defined outside this file. The execution object
  is built from the handle, the source graph, the device context, the
  gradient-requirement value and the device map, and then holds the three resolved
  tensor sequences.
\<close>

record execution =
  exec_handle :: ptr
  exec_symbol :: rvalue
  exec_ctx :: rvalue
  exec_grad_req :: rvalue
  exec_group2ctx :: rvalue
  exec_arg_arrays :: rvalue
  exec_grad_arrays :: rvalue
  exec_aux_arrays :: rvalue

definition symbol_bind ::
  "env \<Rightarrow> rvalue \<Rightarrow> rvalue \<Rightarrow> rvalue \<Rightarrow> bind_kwargs \<Rightarrow> execution outcome" where
  "symbol_bind en obj ctx args kw =
     and_then (host_step (check_context ctx)) (\<lambda>_.
     and_then (symbol_list_arguments en obj) (\<lambda>listed_arguments.
     and_then (host_step (get_ndarray_inputs ''args'' args listed_arguments False))
       (\<lambda>(args', args_handle).
     and_then (host_step (setup_args_grad (kw_args_grad kw) args' listed_arguments))
       (\<lambda>(args_grad, args_grad_handle).
     and_then (symbol_list_auxiliary_states en obj) (\<lambda>aux_names.
     and_then (host_step (setup_aux_states (kw_aux_states kw) aux_names))
       (\<lambda>(aux_states, aux_args_handle).
     and_then (host_step (setup_requirements en (kw_grad_req kw) listed_arguments))
       (\<lambda>(grad_req, reqs_array).
     and_then (host_step (setup_group2ctx (kw_group2ctx kw)))
       (\<lambda>(group2ctx, num_ctx_map_keys, ctx_map_keys, ctx_map_dev_types, ctx_map_dev_ids).
     and_then (host_step (setup_shared_exec (kw_shared_exec kw))) (\<lambda>shared_exec_handle.
     and_then (host_step (mxnet_get_handle obj)) (\<lambda>handle.
     and_then (host_step (mxnet_context_get_device_type_id ctx)) (\<lambda>dev_type.
     and_then (host_step (mxnet_context_get_device_id ctx)) (\<lambda>dev_id.
     let call = \<lparr> bx_symbol_handle = handle,
                  bx_dev_type = dev_type,
                  bx_dev_id = dev_id,
                  bx_num_map_keys = num_ctx_map_keys,
                  bx_map_keys = ctx_map_keys,
                  bx_map_dev_types = ctx_map_dev_types,
                  bx_map_dev_ids = ctx_map_dev_ids,
                  bx_len = of_nat (RARRAY_LEN args'),
                  bx_in_args = args_handle,
                  bx_arg_grad_store = args_grad_handle,
                  bx_grad_req_type = reqs_array,
                  bx_aux_states_len = of_nat (RARRAY_LEN aux_states),
                  bx_aux_states = aux_args_handle,
                  bx_shared_exec = shared_exec_handle \<rparr>
     in and_then (CHECK_CALL (ExecutorBindEX call) (MXExecutorBindEX en call)) (\<lambda>exec_h.
        host_step (Inr \<lparr> exec_handle = exec_h,
                         exec_symbol = obj,
                         exec_ctx = ctx,
                         exec_grad_req = grad_req,
                         exec_group2ctx = group2ctx,
                         exec_arg_arrays = args',
                         exec_grad_arrays = args_grad,
                         exec_aux_arrays = aux_states \<rparr>))))))))))))))"

text \<open>The calls to the native bind entry point among the calls made.\<close>

fun is_bind_call :: "native_call \<Rightarrow> bool" where
  "is_bind_call (ExecutorBindEX c) = True"
| "is_bind_call c = False"

definition bind_calls :: "native_call list \<Rightarrow> native_call list" where
  "bind_calls t = filter is_bind_call t"

text \<open>\<^verbatim>\<open>RB_TYPE_P(v, T_ARRAY)\<close> and \<^verbatim>\<open>RB_TYPE_P(v, T_HASH)\<close>, for stating which branch is taken.\<close>

fun is_T_ARRAY :: "rvalue \<Rightarrow> bool" where
  "is_T_ARRAY (RArray xs) = True"
| "is_T_ARRAY v = False"

fun is_T_HASH :: "rvalue \<Rightarrow> bool" where
  "is_T_HASH (RHash h) = True"
| "is_T_HASH v = False"

text \<open>
  The engine reads \<open>bx_len\<close> entries of the requirement array; it reads past the end of
  the buffer when the buffer has fewer.
\<close>

definition reqs_out_of_bounds :: "bind_call \<Rightarrow> bool" where
  "reqs_out_of_bounds c = (length (bx_grad_req_type c) < unat (bx_len c))"

subsection \<open>A small engine for concrete runs\<close>

text \<open>
  A graph with the arguments \<open>a\<close> and \<open>b\<close> and no auxiliary state, one with the
  auxiliary state \<open>m\<close> in addition (the graph with handle \<open>Addr 2\<close>), an engine
  whose bind call succeeds, and a requirement table with \<open>null\<close> as 0, \<open>write\<close>
  as 1 and \<open>add\<close> as 3.
\<close>

definition example_grad_req_map :: rhash where
  "example_grad_req_map = [(RSym ''null'', RInt 0), (RSym ''write'', RInt 1), (RSym ''add'', RInt 3)]"

definition example_env :: env where
  "example_env =
     \<lparr> MXSymbolListArguments = (\<lambda>h. Inr [''a'', ''b'']),
       MXSymbolListAuxiliaryStates = (\<lambda>h. if h = Addr 2 then Inr [''m''] else Inr []),
       MXExecutorBindEX = (\<lambda>c. Inr (Addr 99)),
       mxnet_grad_req_map = example_grad_req_map \<rparr>"

definition no_kwargs :: bind_kwargs where
  "no_kwargs = \<lparr> kw_args_grad = None, kw_grad_req = None, kw_aux_states = None,
                 kw_group2ctx = None, kw_shared_exec = None \<rparr>"

section \<open>Properties of input resolution\<close>

lemma is_NDArray_iff: "is_NDArray v \<longleftrightarrow> (\<exists>h. v = RNDArray h)"
  by (cases v) simp_all

lemma array_handles_tensors:
  "list_all is_NDArray vs \<Longrightarrow> array_handles vs = Inr (map handle_of vs)"
  by (induction vs) (auto simp: is_NDArray_iff)

lemma array_handles_not_tensors:
  "\<not> list_all is_NDArray vs \<Longrightarrow>
   array_handles vs = Inl (TypeError [Lit ''Only accept Array of NDArrays or Hash of Symbol to NDArray''])"
  by (induction vs) (auto simp: is_NDArray_iff)

lemma hash_inputs_all_present:
  "list_all (\<lambda>n. is_NDArray (rb_hash_lookup h n)) names \<Longrightarrow>
   hash_inputs arg_key h am names =
     Inr (map (rb_hash_lookup h) names, map (\<lambda>n. handle_of (rb_hash_lookup h n)) names)"
  by (induction names)
     (auto simp: is_NDArray_iff rb_hash_lookup_def rb_hash_lookup2_def split: option.splits)

lemma hash_inputs_allow_missing:
  "list_all (\<lambda>n. map_of h n = None \<or> is_NDArray (rb_hash_lookup h n)) names \<Longrightarrow>
   hash_inputs arg_key h True names =
     Inr (map (rb_hash_lookup h) names, map (\<lambda>n. handle_of (rb_hash_lookup h n)) names)"
  by (induction names)
     (auto simp: is_NDArray_iff rb_hash_lookup_def rb_hash_lookup2_def split: option.splits)

lemma hash_inputs_prefix:
  "list_all (\<lambda>n. is_NDArray (rb_hash_lookup h n) \<or> (am \<and> map_of h n = None)) pre \<Longrightarrow>
   hash_inputs arg_key h am (pre @ rest) =
     (case hash_inputs arg_key h am rest of
        Inl e \<Rightarrow> Inl e
      | Inr (vs, hs) \<Rightarrow> Inr (map (rb_hash_lookup h) pre @ vs,
                             map (\<lambda>n. handle_of (rb_hash_lookup h n)) pre @ hs))"
proof (induction pre)
  case Nil
  then show ?case by (simp split: sum.splits)
next
  case (Cons n pre)
  then have ih: "hash_inputs arg_key h am (pre @ rest) =
     (case hash_inputs arg_key h am rest of
        Inl e \<Rightarrow> Inl e
      | Inr (vs, hs) \<Rightarrow> Inr (map (rb_hash_lookup h) pre @ vs,
                             map (\<lambda>n. handle_of (rb_hash_lookup h n)) pre @ hs))"
    by simp
  from Cons.prems have n: "is_NDArray (rb_hash_lookup h n) \<or> (am \<and> map_of h n = None)"
    by simp
  show ?case
  proof (cases "map_of h n")
    case None
    with n have "am" by (simp add: rb_hash_lookup_def rb_hash_lookup2_def)
    with None ih show ?thesis
      by (simp add: rb_hash_lookup_def rb_hash_lookup2_def split: sum.splits)
  next
    case (Some v)
    with n obtain p where "v = RNDArray p"
      by (auto simp: rb_hash_lookup_def rb_hash_lookup2_def is_NDArray_iff)
    with Some ih show ?thesis
      by (simp add: rb_hash_lookup_def rb_hash_lookup2_def split: sum.splits)
  qed
qed

lemma hash_inputs_missing_fails:
  "map_of h k = None \<Longrightarrow> k \<in> set names \<Longrightarrow> \<exists>e. hash_inputs arg_key h False names = Inl e"
  by (induction names) (auto split: option.splits sum.splits)

lemma hash_inputs_not_tensor_fails:
  "map_of h k = Some x \<Longrightarrow> \<not> is_NDArray x \<Longrightarrow> k \<in> set names \<Longrightarrow>
   \<exists>e. hash_inputs arg_key h am names = Inl e"
  by (induction names) (auto split: option.splits sum.splits)

lemma hash_inputs_map_of:
  assumes "map_of h = map_of h'"
  shows "hash_inputs arg_key h am names = hash_inputs arg_key h' am names"
proof (induction names)
  case Nil
  show ?case by simp
next
  case (Cons n names)
  from assms have "map_of h n = map_of h' n" by simp
  with Cons show ?case
    by (cases "map_of h' n"; cases am) (simp_all split: sum.splits)
qed


text \<open>
  Claim C2. An input given as a sequence is compared with the name list by length
  first: a different length raises the argument error that names the role
  (\<open>arg_key\<close>), whatever the elements are. A sequence of tensors is resolved exactly
  when its length is that of the name list, and then the result is the sequence itself,
  in the order supplied, with the handle of each tensor at the same position of a
  handle array of the same length.
\<close>

theorem sequence_input_resolution:
  "(length vs \<noteq> length arg_names \<longrightarrow>
      get_ndarray_inputs arg_key (RArray vs) arg_names allow_missing =
        Inl (ArgError [Lit ''Length of '', Lit arg_key,
                       Lit '' does not match the number of arguments'']))
   \<and> (list_all is_NDArray vs \<longrightarrow>
        ((\<exists>r. get_ndarray_inputs arg_key (RArray vs) arg_names allow_missing = Inr r)
           \<longleftrightarrow> length vs = length arg_names)
        \<and> (length vs = length arg_names \<longrightarrow>
             get_ndarray_inputs arg_key (RArray vs) arg_names allow_missing =
               Inr (RArray vs, map handle_of vs)
             \<and> length (map handle_of vs) = length arg_names))"
  by (simp add: array_handles_tensors)

theorem sequence_input_resolution_witness:
  "get_ndarray_inputs ''args'' (RArray [RNDArray (Addr 4)]) [RSym ''a'', RSym ''b''] False =
     Inl (ArgError [Lit ''Length of '', Lit ''args'',
                    Lit '' does not match the number of arguments''])
   \<and> get_ndarray_inputs ''args'' (RArray [RNDArray (Addr 4), RNDArray (Addr 5)])
        [RSym ''a'', RSym ''b''] False =
       Inr (RArray [RNDArray (Addr 4), RNDArray (Addr 5)], [Addr 4, Addr 5])"
  using sequence_input_resolution [of "[RNDArray (Addr 4)]" "[RSym ''a'', RSym ''b'']" "''args''" False]
    sequence_input_resolution [of "[RNDArray (Addr 4), RNDArray (Addr 5)]"
      "[RSym ''a'', RSym ''b'']" "''args''" False]
  by simp

text \<open>
  Claim C3. When the mapping holds a tensor for every name of the list, the result has
  at position \<open>i\<close> the tensor stored under the \<open>i\<close>-th name, and its handle in the
  handle array. The result is a function of the key-to-value content of the mapping
  alone (\<open>map_of\<close>): two mappings with the same entries, enumerated in any two orders,
  resolve to the same result.
\<close>

theorem mapping_input_resolution:
  "(list_all (\<lambda>n. is_NDArray (rb_hash_lookup h n)) arg_names \<longrightarrow>
      get_ndarray_inputs arg_key (RHash h) arg_names allow_missing =
        Inr (RArray (map (rb_hash_lookup h) arg_names),
             map (\<lambda>n. handle_of (rb_hash_lookup h n)) arg_names))
   \<and> (map_of h = map_of h' \<longrightarrow>
        get_ndarray_inputs arg_key (RHash h) arg_names allow_missing =
        get_ndarray_inputs arg_key (RHash h') arg_names allow_missing)
   \<and> (distinct (map fst h) \<and> distinct (map fst h') \<and> set h = set h' \<longrightarrow>
        get_ndarray_inputs arg_key (RHash h) arg_names allow_missing =
        get_ndarray_inputs arg_key (RHash h') arg_names allow_missing)"
proof (intro conjI impI)
  assume "list_all (\<lambda>n. is_NDArray (rb_hash_lookup h n)) arg_names"
  then show "get_ndarray_inputs arg_key (RHash h) arg_names allow_missing =
        Inr (RArray (map (rb_hash_lookup h) arg_names),
             map (\<lambda>n. handle_of (rb_hash_lookup h n)) arg_names)"
    by (simp add: hash_inputs_all_present)
next
  assume "map_of h = map_of h'"
  then show "get_ndarray_inputs arg_key (RHash h) arg_names allow_missing =
        get_ndarray_inputs arg_key (RHash h') arg_names allow_missing"
    by (simp add: hash_inputs_map_of [of h h'])
next
  assume "distinct (map fst h) \<and> distinct (map fst h') \<and> set h = set h'"
  then have "map_of h = map_of h'"
    by (simp add: map_of_inject_set)
  then show "get_ndarray_inputs arg_key (RHash h) arg_names allow_missing =
        get_ndarray_inputs arg_key (RHash h') arg_names allow_missing"
    by (simp add: hash_inputs_map_of [of h h'])
qed

theorem mapping_input_resolution_witness:
  "get_ndarray_inputs ''args'' (RHash [(RSym ''b'', RNDArray (Addr 5)), (RSym ''a'', RNDArray (Addr 4))])
      [RSym ''a'', RSym ''b''] False =
     Inr (RArray [RNDArray (Addr 4), RNDArray (Addr 5)], [Addr 4, Addr 5])
   \<and> get_ndarray_inputs ''args'' (RHash [(RSym ''b'', RNDArray (Addr 5)), (RSym ''a'', RNDArray (Addr 4))])
      [RSym ''a'', RSym ''b''] False =
     get_ndarray_inputs ''args'' (RHash [(RSym ''a'', RNDArray (Addr 4)), (RSym ''b'', RNDArray (Addr 5))])
      [RSym ''a'', RSym ''b''] False"
  using mapping_input_resolution [of "[(RSym ''b'', RNDArray (Addr 5)), (RSym ''a'', RNDArray (Addr 4))]"
      "[RSym ''a'', RSym ''b'']" "''args''" False
      "[(RSym ''a'', RNDArray (Addr 4)), (RSym ''b'', RNDArray (Addr 5))]"]
  by (simp add: rb_hash_lookup_def rb_hash_lookup2_def)

text \<open>
  Claim C4. With missing values disallowed, the first name of the list that the mapping
  does not hold (the names before it resolving to tensors) raises the argument error
  that prints this key and the role, and the resolution fails whenever some listed name
  is absent. With missing values allowed, and tensors under the names that are present,
  the resolution succeeds with sequences of the length of the name list that have nil
  and the \<open>NULL\<close> handle at the position of each absent name, and the stored tensor,
  which is not nil, with its handle at the position of each present one.
\<close>

theorem missing_key_policy:
  "(map_of h k = None \<and> list_all (\<lambda>n. is_NDArray (rb_hash_lookup h n)) pre \<longrightarrow>
      get_ndarray_inputs arg_key (RHash h) (pre @ k # post) False =
        Inl (ArgError [Lit ''key `'', Val k, Lit ''` is missing in `'', Lit arg_key, Lit ''`'']))
   \<and> (map_of h k = None \<and> k \<in> set arg_names \<longrightarrow>
        (\<exists>e. get_ndarray_inputs arg_key (RHash h) arg_names False = Inl e))
   \<and> (list_all (\<lambda>n. map_of h n = None \<or> is_NDArray (rb_hash_lookup h n)) arg_names \<longrightarrow>
        (\<exists>vs hs. get_ndarray_inputs arg_key (RHash h) arg_names True = Inr (RArray vs, hs)
           \<and> length vs = length arg_names \<and> length hs = length arg_names
           \<and> (\<forall>i < length arg_names.
                 (map_of h (arg_names ! i) = None \<longrightarrow> vs ! i = Qnil \<and> hs ! i = NULL)
               \<and> (\<forall>v. map_of h (arg_names ! i) = Some v \<longrightarrow>
                       vs ! i = v \<and> vs ! i \<noteq> Qnil \<and> hs ! i = handle_of v))))"
proof (intro conjI impI)
  assume a: "map_of h k = None \<and> list_all (\<lambda>n. is_NDArray (rb_hash_lookup h n)) pre"
  then have "list_all (\<lambda>n. is_NDArray (rb_hash_lookup h n) \<or> (False \<and> map_of h n = None)) pre"
    by simp
  from hash_inputs_prefix [OF this, of arg_key "k # post"] a
  show "get_ndarray_inputs arg_key (RHash h) (pre @ k # post) False =
        Inl (ArgError [Lit ''key `'', Val k, Lit ''` is missing in `'', Lit arg_key, Lit ''`''])"
    by simp
next
  assume "map_of h k = None \<and> k \<in> set arg_names"
  then obtain e where "hash_inputs arg_key h False arg_names = Inl e"
    using hash_inputs_missing_fails by blast
  then show "\<exists>e. get_ndarray_inputs arg_key (RHash h) arg_names False = Inl e"
    by simp
next
  assume a: "list_all (\<lambda>n. map_of h n = None \<or> is_NDArray (rb_hash_lookup h n)) arg_names"
  have r: "get_ndarray_inputs arg_key (RHash h) arg_names True =
        Inr (RArray (map (rb_hash_lookup h) arg_names),
             map (\<lambda>n. handle_of (rb_hash_lookup h n)) arg_names)"
    by (simp add: hash_inputs_allow_missing [OF a])
  have p: "\<forall>i < length arg_names.
      (map_of h (arg_names ! i) = None \<longrightarrow>
         map (rb_hash_lookup h) arg_names ! i = Qnil
         \<and> map (\<lambda>n. handle_of (rb_hash_lookup h n)) arg_names ! i = NULL)
    \<and> (\<forall>v. map_of h (arg_names ! i) = Some v \<longrightarrow>
           map (rb_hash_lookup h) arg_names ! i = v
           \<and> map (rb_hash_lookup h) arg_names ! i \<noteq> Qnil
           \<and> map (\<lambda>n. handle_of (rb_hash_lookup h n)) arg_names ! i = handle_of v)"
  proof (intro allI impI conjI)
    fix i assume "i < length arg_names" "map_of h (arg_names ! i) = None"
    then show "map (rb_hash_lookup h) arg_names ! i = Qnil"
      by (simp add: rb_hash_lookup_def rb_hash_lookup2_def)
  next
    fix i assume "i < length arg_names" "map_of h (arg_names ! i) = None"
    then show "map (\<lambda>n. handle_of (rb_hash_lookup h n)) arg_names ! i = NULL"
      by (simp add: rb_hash_lookup_def rb_hash_lookup2_def)
  next
    fix i v assume "i < length arg_names" "map_of h (arg_names ! i) = Some v"
    then show "map (rb_hash_lookup h) arg_names ! i = v"
      by (simp add: rb_hash_lookup_def rb_hash_lookup2_def)
  next
    fix i v assume i: "i < length arg_names" and v: "map_of h (arg_names ! i) = Some v"
    from a i have "map_of h (arg_names ! i) = None \<or> is_NDArray (rb_hash_lookup h (arg_names ! i))"
      by (simp add: list_all_length)
    with v have "is_NDArray v"
      by (simp add: rb_hash_lookup_def rb_hash_lookup2_def)
    then have "v \<noteq> Qnil" by auto
    with i v show "map (rb_hash_lookup h) arg_names ! i \<noteq> Qnil"
      by (simp add: rb_hash_lookup_def rb_hash_lookup2_def)
  next
    fix i v assume "i < length arg_names" "map_of h (arg_names ! i) = Some v"
    then show "map (\<lambda>n. handle_of (rb_hash_lookup h n)) arg_names ! i = handle_of v"
      by (simp add: rb_hash_lookup_def rb_hash_lookup2_def)
  qed
  show "\<exists>vs hs. get_ndarray_inputs arg_key (RHash h) arg_names True = Inr (RArray vs, hs)
           \<and> length vs = length arg_names \<and> length hs = length arg_names
           \<and> (\<forall>i < length arg_names.
                 (map_of h (arg_names ! i) = None \<longrightarrow> vs ! i = Qnil \<and> hs ! i = NULL)
               \<and> (\<forall>v. map_of h (arg_names ! i) = Some v \<longrightarrow>
                       vs ! i = v \<and> vs ! i \<noteq> Qnil \<and> hs ! i = handle_of v))"
    apply (rule exI [of _ "map (rb_hash_lookup h) arg_names"])
    apply (rule exI [of _ "map (\<lambda>n. handle_of (rb_hash_lookup h n)) arg_names"])
    apply (intro conjI)
       apply (rule r)
      apply simp
     apply simp
    apply (rule p)
    done
qed

theorem missing_key_policy_witness:
  "get_ndarray_inputs ''args'' (RHash [(RSym ''a'', RNDArray (Addr 4))])
      ([RSym ''a''] @ RSym ''b'' # [RSym ''c'']) False =
     Inl (ArgError [Lit ''key `'', Val (RSym ''b''), Lit ''` is missing in `'', Lit ''args'', Lit ''`''])
   \<and> (\<exists>vs hs. get_ndarray_inputs ''args_grad'' (RHash [(RSym ''a'', RNDArray (Addr 4))])
         [RSym ''a'', RSym ''b''] True = Inr (RArray vs, hs)
         \<and> vs ! 1 = Qnil \<and> hs ! 1 = NULL \<and> vs ! 0 = RNDArray (Addr 4) \<and> hs ! 0 = Addr 4)"
proof -
  have 1: "map_of [(RSym ''a'', RNDArray (Addr 4))] (RSym ''b'') = None
       \<and> list_all (\<lambda>n. is_NDArray (rb_hash_lookup [(RSym ''a'', RNDArray (Addr 4))] n)) [RSym ''a'']"
    by (simp add: rb_hash_lookup_def rb_hash_lookup2_def)
  have 2: "list_all (\<lambda>n. map_of [(RSym ''a'', RNDArray (Addr 4))] n = None
             \<or> is_NDArray (rb_hash_lookup [(RSym ''a'', RNDArray (Addr 4))] n)) [RSym ''a'', RSym ''b'']"
    by (simp add: rb_hash_lookup_def rb_hash_lookup2_def)
  from missing_key_policy [of "[(RSym ''a'', RNDArray (Addr 4))]" "RSym ''b''" "[RSym ''a'']"
      "''args''" "[RSym ''c'']" "[RSym ''a'', RSym ''b'']"] 1
  have a: "get_ndarray_inputs ''args'' (RHash [(RSym ''a'', RNDArray (Addr 4))])
      ([RSym ''a''] @ RSym ''b'' # [RSym ''c'']) False =
     Inl (ArgError [Lit ''key `'', Val (RSym ''b''), Lit ''` is missing in `'', Lit ''args'', Lit ''`''])"
    by blast
  have b: "\<exists>vs hs. get_ndarray_inputs ''args_grad'' (RHash [(RSym ''a'', RNDArray (Addr 4))])
         [RSym ''a'', RSym ''b''] True = Inr (RArray vs, hs)
         \<and> vs ! 1 = Qnil \<and> hs ! 1 = NULL \<and> vs ! 0 = RNDArray (Addr 4) \<and> hs ! 0 = Addr 4"
    by simp
  from a b show ?thesis by blast
qed

text \<open>
  Claim C8. An input that is neither an Array nor a Hash raises the type error at once.
  A sequence of the right length with an element that is no tensor raises the type
  error (with a wrong length the length error comes first, and the resolution fails in
  both cases), and so does a mapping whose value for a listed name is no tensor, once
  the names before it have passed (a missing key before it raises first, and the
  resolution fails in both cases). The step makes no native call: its list of calls is
  empty.
\<close>

theorem wrong_kind_is_type_error:
  "(\<not> is_T_ARRAY v \<and> \<not> is_T_HASH v \<longrightarrow>
      host_step (get_ndarray_inputs arg_key v arg_names allow_missing) =
        (Inl (TypeError [Lit ''Only accept Array of NDArrays or Hash of Symbol to NDArray'']), []))
   \<and> (length vs = length arg_names \<and> \<not> list_all is_NDArray vs \<longrightarrow>
        host_step (get_ndarray_inputs arg_key (RArray vs) arg_names allow_missing) =
          (Inl (TypeError [Lit ''Only accept Array of NDArrays or Hash of Symbol to NDArray'']), []))
   \<and> (\<not> list_all is_NDArray vs \<longrightarrow>
        (\<exists>e. get_ndarray_inputs arg_key (RArray vs) arg_names allow_missing = Inl e))
   \<and> (map_of h k = Some x \<and> \<not> is_NDArray x
        \<and> list_all (\<lambda>n. is_NDArray (rb_hash_lookup h n) \<or> (allow_missing \<and> map_of h n = None)) pre \<longrightarrow>
        host_step (get_ndarray_inputs arg_key (RHash h) (pre @ k # post) allow_missing) =
          (Inl (TypeError [Lit ''Only accept array of NDArrays or hash of Symbol to NDArray'']), []))
   \<and> (map_of h k = Some x \<and> \<not> is_NDArray x \<and> k \<in> set arg_names \<longrightarrow>
        (\<exists>e. get_ndarray_inputs arg_key (RHash h) arg_names allow_missing = Inl e))"
proof (intro conjI impI)
  assume "\<not> is_T_ARRAY v \<and> \<not> is_T_HASH v"
  then show "host_step (get_ndarray_inputs arg_key v arg_names allow_missing) =
        (Inl (TypeError [Lit ''Only accept Array of NDArrays or Hash of Symbol to NDArray'']), [])"
    by (cases v) (simp_all add: host_step_def)
next
  assume "length vs = length arg_names \<and> \<not> list_all is_NDArray vs"
  then show "host_step (get_ndarray_inputs arg_key (RArray vs) arg_names allow_missing) =
          (Inl (TypeError [Lit ''Only accept Array of NDArrays or Hash of Symbol to NDArray'']), [])"
    by (simp add: host_step_def array_handles_not_tensors)
next
  assume "\<not> list_all is_NDArray vs"
  then show "\<exists>e. get_ndarray_inputs arg_key (RArray vs) arg_names allow_missing = Inl e"
    by (simp add: array_handles_not_tensors)
next
  assume a: "map_of h k = Some x \<and> \<not> is_NDArray x
        \<and> list_all (\<lambda>n. is_NDArray (rb_hash_lookup h n) \<or> (allow_missing \<and> map_of h n = None)) pre"
  then have "list_all (\<lambda>n. is_NDArray (rb_hash_lookup h n) \<or> (allow_missing \<and> map_of h n = None)) pre"
    by simp
  from hash_inputs_prefix [OF this, of arg_key "k # post"] a
  show "host_step (get_ndarray_inputs arg_key (RHash h) (pre @ k # post) allow_missing) =
          (Inl (TypeError [Lit ''Only accept array of NDArrays or hash of Symbol to NDArray'']), [])"
    by (simp add: host_step_def)
next
  assume "map_of h k = Some x \<and> \<not> is_NDArray x \<and> k \<in> set arg_names"
  then obtain e where "hash_inputs arg_key h allow_missing arg_names = Inl e"
    using hash_inputs_not_tensor_fails by blast
  then show "\<exists>e. get_ndarray_inputs arg_key (RHash h) arg_names allow_missing = Inl e"
    by simp
qed

theorem wrong_kind_is_type_error_witness:
  "host_step (get_ndarray_inputs ''args'' (RStr ''x'') [RSym ''a''] False) =
     (Inl (TypeError [Lit ''Only accept Array of NDArrays or Hash of Symbol to NDArray'']), [])
   \<and> host_step (get_ndarray_inputs ''args'' (RArray [RInt 1]) [RSym ''a''] False) =
     (Inl (TypeError [Lit ''Only accept Array of NDArrays or Hash of Symbol to NDArray'']), [])
   \<and> host_step (get_ndarray_inputs ''args'' (RHash [(RSym ''a'', Qnil)]) ([] @ RSym ''a'' # []) False) =
     (Inl (TypeError [Lit ''Only accept array of NDArrays or hash of Symbol to NDArray'']), [])"
  using wrong_kind_is_type_error [of "RStr ''x''" "''args''" "[RSym ''a'']" False "[RInt 1]"
      "[(RSym ''a'', Qnil)]" "RSym ''a''" Qnil "[]" "[]"]
  by simp

section \<open>Properties of the gradient requirements\<close>

lemma for_each_length: "for_each f xs = Inr ys \<Longrightarrow> length ys = length xs"
  by (induction xs arbitrary: ys) (auto split: sum.splits)

lemma for_each_all_ok:
  "list_all (\<lambda>x. f x = Inr (g x)) xs \<Longrightarrow> for_each f xs = Inr (map g xs)"
  by (induction xs) auto

lemma for_each_Inl: "for_each f xs = Inl e \<Longrightarrow> \<exists>x \<in> set xs. f x = Inl e"
  by (induction xs) (auto split: sum.splits)

lemma for_each_fails: "x \<in> set xs \<Longrightarrow> f x = Inl e \<Longrightarrow> \<exists>e'. for_each f xs = Inl e'"
  by (induction xs) (auto split: sum.splits)

lemma NUM2UINT_in_range:
  "- (2 ^ 31) \<le> c \<Longrightarrow> c \<le> 2 ^ 32 - 1 \<Longrightarrow> NUM2UINT (RInt c) = Inr (word_of_int c)"
  by simp

lemma mapping_grad_req_codes:
  "list_all (\<lambda>n. NUM2UINT (rb_hash_lookup2 g n (RInt 0)) = Inr (code n)) listed_arguments \<Longrightarrow>
   reqs_array_of gm (RHash g) listed_arguments = Inr (map code listed_arguments)"
  by (simp add: for_each_all_ok)

lemma mapping_grad_req_absent:
  "map_of g n = None \<Longrightarrow> NUM2UINT (rb_hash_lookup2 g n (RInt 0)) = Inr 0"
  by (simp add: rb_hash_lookup2_def)

lemma mapping_grad_req_label:
  "map_of g n = Some (RSym l) \<Longrightarrow> n \<in> set listed_arguments \<Longrightarrow>
   \<exists>e. reqs_array_of gm (RHash g) listed_arguments = Inl e"
proof -
  assume a: "map_of g n = Some (RSym l)" and b: "n \<in> set listed_arguments"
  from a have "NUM2UINT (rb_hash_lookup2 g n (RInt 0)) =
      Inl (TypeError [Lit ''no implicit conversion of '', ClassOf (RSym l), Lit '' into Integer''])"
    by (simp add: rb_hash_lookup2_def)
  from for_each_fails [of n listed_arguments "\<lambda>name. NUM2UINT (rb_hash_lookup2 g name (RInt 0))", OF b this]
  show ?thesis by simp
qed

text \<open>
  Claim C5. Without \<^verbatim>\<open>grad_req\<close> the requirement array has one entry for each listed
  argument, each the code that the table gives for \<^verbatim>\<open>:write\<close>. A symbol is looked up in
  the table first: a symbol that is no key of the table raises the argument error that
  prints the table, and the code of a symbol that is a key fills all positions.
\<close>

theorem scalar_grad_req:
  "(map_of (mxnet_grad_req_map en) (RSym ''write'') = Some (RInt c)
      \<and> - (2 ^ 31) \<le> c \<and> c \<le> 2 ^ 32 - 1 \<longrightarrow>
      setup_requirements en None listed_arguments =
        Inr (RSym ''write'', replicate (length listed_arguments) (word_of_int c)))
   \<and> (map_of (mxnet_grad_req_map en) (RSym s) = None \<longrightarrow>
        setup_requirements en (Some (RSym s)) listed_arguments =
          Inl (ArgError [Lit ''grad_req must be in '', Val (RHash (mxnet_grad_req_map en))]))
   \<and> (map_of (mxnet_grad_req_map en) (RSym s) = Some (RInt c)
        \<and> - (2 ^ 31) \<le> c \<and> c \<le> 2 ^ 32 - 1 \<longrightarrow>
        setup_requirements en (Some (RSym s)) listed_arguments =
          Inr (RSym s, replicate (length listed_arguments) (word_of_int c)))"
  by (simp add: setup_requirements_def default_grad_req_def rb_hash_lookup_def rb_hash_lookup2_def)

theorem scalar_grad_req_witness:
  "setup_requirements example_env None [RSym ''a'', RSym ''b''] = Inr (RSym ''write'', [1, 1])
   \<and> setup_requirements example_env (Some (RSym ''nope'')) [RSym ''a'', RSym ''b''] =
       Inl (ArgError [Lit ''grad_req must be in '', Val (RHash example_grad_req_map)])
   \<and> setup_requirements example_env (Some (RSym ''add'')) [RSym ''a'', RSym ''b''] =
       Inr (RSym ''add'', [3, 3])"
  using scalar_grad_req [of example_env 1 "[RSym ''a'', RSym ''b'']" "''nope''"]
    scalar_grad_req [of example_env 3 "[RSym ''a'', RSym ''b'']" "''add''"]
  by (simp add: example_env_def example_grad_req_map_def)

text \<open>
  Claim C10. A String requirement is replaced by the symbol of the same text before
  the kind of the value is tested, so the requirement step and the whole bind operation
  (result, raised error, native calls and the value kept by the execution object) are
  the same for the String and for the symbol.
\<close>

theorem string_grad_req_is_interned:
  "setup_requirements en (Some (RStr s)) listed_arguments =
     setup_requirements en (Some (RSym s)) listed_arguments
   \<and> symbol_bind en obj ctx args (kw\<lparr>kw_grad_req := Some (RStr s)\<rparr>) =
     symbol_bind en obj ctx args (kw\<lparr>kw_grad_req := Some (RSym s)\<rparr>)"
proof -
  have "\<And>la. setup_requirements en (Some (RStr s)) la = setup_requirements en (Some (RSym s)) la"
    by (simp add: setup_requirements_def default_grad_req_def)
  then show ?thesis
    by (simp add: symbol_bind_def)
qed

theorem string_grad_req_is_interned_witness:
  "setup_requirements example_env (Some (RStr ''add'')) [RSym ''a'', RSym ''b''] = Inr (RSym ''add'', [3, 3])
   \<and> setup_requirements example_env (Some (RStr ''nope'')) [RSym ''a'', RSym ''b''] =
       Inl (ArgError [Lit ''grad_req must be in '', Val (RHash example_grad_req_map)])"
  using string_grad_req_is_interned [of example_env "''add''" "[RSym ''a'', RSym ''b'']"]
    string_grad_req_is_interned [of example_env "''nope''" "[RSym ''a'', RSym ''b'']"]
  by (simp add: setup_requirements_def default_grad_req_def example_env_def example_grad_req_map_def
      rb_hash_lookup_def rb_hash_lookup2_def)

text \<open>
  Claim C6. The Hash branch converts the value found under an argument name with
  \<^verbatim>\<open>NUM2UINT\<close> directly, without the table that the symbol and Array branches use. For
  the arguments \<open>a\<close>, \<open>b\<close> and the name-to-label mapping \<open>{a: :write}\<close> the
  resolution raises a type error at \<open>a\<close>, so no code 0 is produced for the absent
  \<open>b\<close>; the Array branch translates the same label through the table.
\<close>

theorem mapping_grad_req_label_raises:
  "setup_requirements example_env (Some (RHash [(RSym ''a'', RSym ''write'')])) [RSym ''a'', RSym ''b''] =
     Inl (TypeError [Lit ''no implicit conversion of '', ClassOf (RSym ''write''), Lit '' into Integer''])
   \<and> setup_requirements example_env (Some (RArray [RSym ''write'', RSym ''null''])) [RSym ''a'', RSym ''b''] =
     Inr (RArray [RSym ''write'', RSym ''null''], [1, 0])"
  by (simp add: setup_requirements_def default_grad_req_def example_env_def example_grad_req_map_def
      rb_hash_lookup_def rb_hash_lookup2_def)

section \<open>Properties of the bind operation\<close>

lemma and_then_host_step:
  "and_then (host_step r) f = (case r of Inl e \<Rightarrow> (Inl e, []) | Inr a \<Rightarrow> f a)"
  by (simp add: and_then_def host_step_def split: sum.splits prod.splits)

lemma and_then_cases:
  "and_then m f = (case fst m of Inl e \<Rightarrow> (Inl e, snd m) | Inr a \<Rightarrow> (fst (f a), snd m @ snd (f a)))"
  by (cases m) (simp add: and_then_def split: sum.splits prod.splits)

lemma list_arguments_cases:
  "symbol_list_arguments en obj =
     (case mxnet_get_handle obj of
        Inl e \<Rightarrow> (Inl e, [])
      | Inr h \<Rightarrow> (case MXSymbolListArguments en h of
                    Inl msg \<Rightarrow> (Inl (MXNetError msg), [ListArguments h])
                  | Inr names \<Rightarrow> (Inr (map RSym names), [ListArguments h])))"
  by (simp add: symbol_list_arguments_def and_then_host_step and_then_def CHECK_CALL_def host_step_def
      split: sum.splits)

lemma list_auxiliary_states_cases:
  "symbol_list_auxiliary_states en obj =
     (case mxnet_get_handle obj of
        Inl e \<Rightarrow> (Inl e, [])
      | Inr h \<Rightarrow> (case MXSymbolListAuxiliaryStates en h of
                    Inl msg \<Rightarrow> (Inl (MXNetError msg), [ListAuxiliaryStates h])
                  | Inr names \<Rightarrow> (Inr (map RSym names), [ListAuxiliaryStates h])))"
  by (simp add: symbol_list_auxiliary_states_def and_then_host_step and_then_def CHECK_CALL_def
      host_step_def split: sum.splits)

lemma bind_call_made:
  assumes "ExecutorBindEX c \<in> set (snd (symbol_bind en obj ctx args kw))"
  shows "\<exists>la a ah g gh aux s sh gr reqs g2c n ks ts ds se h dt di.
           check_context ctx = Inr ()
         \<and> fst (symbol_list_arguments en obj) = Inr la
         \<and> get_ndarray_inputs ''args'' args la False = Inr (a, ah)
         \<and> setup_args_grad (kw_args_grad kw) a la = Inr (g, gh)
         \<and> fst (symbol_list_auxiliary_states en obj) = Inr aux
         \<and> setup_aux_states (kw_aux_states kw) aux = Inr (s, sh)
         \<and> setup_requirements en (kw_grad_req kw) la = Inr (gr, reqs)
         \<and> setup_group2ctx (kw_group2ctx kw) = Inr (g2c, n, ks, ts, ds)
         \<and> setup_shared_exec (kw_shared_exec kw) = Inr se
         \<and> mxnet_get_handle obj = Inr h
         \<and> mxnet_context_get_device_type_id ctx = Inr dt
         \<and> mxnet_context_get_device_id ctx = Inr di
         \<and> c = \<lparr> bx_symbol_handle = h, bx_dev_type = dt, bx_dev_id = di,
                  bx_num_map_keys = n, bx_map_keys = ks, bx_map_dev_types = ts,
                  bx_map_dev_ids = ds, bx_len = of_nat (RARRAY_LEN a), bx_in_args = ah,
                  bx_arg_grad_store = gh, bx_grad_req_type = reqs,
                  bx_aux_states_len = of_nat (RARRAY_LEN s), bx_aux_states = sh,
                  bx_shared_exec = se \<rparr>"
  using assms
  unfolding symbol_bind_def
  apply (simp add: and_then_host_step and_then_cases Let_def CHECK_CALL_def host_step_def
       split: sum.splits prod.splits)
  apply (auto simp: list_arguments_cases list_auxiliary_states_cases split: sum.splits)
  done



lemma symbol_bind_resolved:
  assumes "check_context ctx = Inr ()"
    and "fst (symbol_list_arguments en obj) = Inr la"
    and "get_ndarray_inputs ''args'' args la False = Inr (a, ah)"
    and "setup_args_grad (kw_args_grad kw) a la = Inr (g, gh)"
    and "fst (symbol_list_auxiliary_states en obj) = Inr aux"
    and "setup_aux_states (kw_aux_states kw) aux = Inr (s, sh)"
    and "setup_requirements en (kw_grad_req kw) la = Inr (gr, reqs)"
    and "setup_group2ctx (kw_group2ctx kw) = Inr (g2c, n, ks, ts, ds)"
    and "setup_shared_exec (kw_shared_exec kw) = Inr se"
    and "mxnet_get_handle obj = Inr h"
    and "mxnet_context_get_device_type_id ctx = Inr dt"
    and "mxnet_context_get_device_id ctx = Inr di"
    and "c = \<lparr> bx_symbol_handle = h, bx_dev_type = dt, bx_dev_id = di,
                  bx_num_map_keys = n, bx_map_keys = ks, bx_map_dev_types = ts,
                  bx_map_dev_ids = ds, bx_len = of_nat (RARRAY_LEN a), bx_in_args = ah,
                  bx_arg_grad_store = gh, bx_grad_req_type = reqs,
                  bx_aux_states_len = of_nat (RARRAY_LEN s), bx_aux_states = sh,
                  bx_shared_exec = se \<rparr>"
  shows "symbol_bind en obj ctx args kw =
           ((case MXExecutorBindEX en c of
               Inl msg \<Rightarrow> Inl (MXNetError msg)
             | Inr eh \<Rightarrow> Inr \<lparr> exec_handle = eh, exec_symbol = obj, exec_ctx = ctx,
                               exec_grad_req = gr, exec_group2ctx = g2c, exec_arg_arrays = a,
                               exec_grad_arrays = g, exec_aux_arrays = s \<rparr>),
            [ListArguments h, ListAuxiliaryStates h, ExecutorBindEX c])"
proof -
  from assms(2) assms(10) have la: "symbol_list_arguments en obj = (Inr la, [ListArguments h])"
    by (simp add: list_arguments_cases split: sum.splits)
  from assms(5) assms(10) have aux: "symbol_list_auxiliary_states en obj = (Inr aux, [ListAuxiliaryStates h])"
    by (simp add: list_auxiliary_states_cases split: sum.splits)
  show ?thesis
    unfolding symbol_bind_def
    by (simp add: and_then_host_step and_then_cases Let_def CHECK_CALL_def host_step_def
        la aux assms(1,3,4,6,7,8,9,10,11,12,13) split: sum.splits)
qed

lemma symbol_bind_success_steps:
  assumes "fst (symbol_bind en obj ctx args kw) = Inr ex"
  shows "\<exists>la a ah g gh aux s sh gr reqs g2c n ks ts ds se h dt di.
           check_context ctx = Inr ()
         \<and> fst (symbol_list_arguments en obj) = Inr la
         \<and> get_ndarray_inputs ''args'' args la False = Inr (a, ah)
         \<and> setup_args_grad (kw_args_grad kw) a la = Inr (g, gh)
         \<and> fst (symbol_list_auxiliary_states en obj) = Inr aux
         \<and> setup_aux_states (kw_aux_states kw) aux = Inr (s, sh)
         \<and> setup_requirements en (kw_grad_req kw) la = Inr (gr, reqs)
         \<and> setup_group2ctx (kw_group2ctx kw) = Inr (g2c, n, ks, ts, ds)
         \<and> setup_shared_exec (kw_shared_exec kw) = Inr se
         \<and> mxnet_get_handle obj = Inr h
         \<and> mxnet_context_get_device_type_id ctx = Inr dt
         \<and> mxnet_context_get_device_id ctx = Inr di"
  using assms
  unfolding symbol_bind_def
  by (simp add: and_then_host_step and_then_cases Let_def CHECK_CALL_def host_step_def
       split: sum.splits prod.splits)

lemma symbol_bind_success:
  assumes "fst (symbol_bind en obj ctx args kw) = Inr ex"
  shows "\<exists>c. snd (symbol_bind en obj ctx args kw) =
               [ListArguments (bx_symbol_handle c), ListAuxiliaryStates (bx_symbol_handle c),
                ExecutorBindEX c]
           \<and> MXExecutorBindEX en c = Inr (exec_handle ex)"
proof -
  from symbol_bind_success_steps [OF assms]
  obtain la a ah g gh aux s sh gr reqs g2c n ks ts ds se h dt di where st:
    "check_context ctx = Inr ()"
    "fst (symbol_list_arguments en obj) = Inr la"
    "get_ndarray_inputs ''args'' args la False = Inr (a, ah)"
    "setup_args_grad (kw_args_grad kw) a la = Inr (g, gh)"
    "fst (symbol_list_auxiliary_states en obj) = Inr aux"
    "setup_aux_states (kw_aux_states kw) aux = Inr (s, sh)"
    "setup_requirements en (kw_grad_req kw) la = Inr (gr, reqs)"
    "setup_group2ctx (kw_group2ctx kw) = Inr (g2c, n, ks, ts, ds)"
    "setup_shared_exec (kw_shared_exec kw) = Inr se"
    "mxnet_get_handle obj = Inr h"
    "mxnet_context_get_device_type_id ctx = Inr dt"
    "mxnet_context_get_device_id ctx = Inr di"
    by blast
  define c where "c = \<lparr> bx_symbol_handle = h, bx_dev_type = dt, bx_dev_id = di,
                  bx_num_map_keys = n, bx_map_keys = ks, bx_map_dev_types = ts,
                  bx_map_dev_ids = ds, bx_len = of_nat (RARRAY_LEN a), bx_in_args = ah,
                  bx_arg_grad_store = gh, bx_grad_req_type = reqs,
                  bx_aux_states_len = of_nat (RARRAY_LEN s), bx_aux_states = sh,
                  bx_shared_exec = se \<rparr>"
  note r = symbol_bind_resolved [OF st c_def]
  have h: "bx_symbol_handle c = h" by (simp add: c_def)
  from r assms have "MXExecutorBindEX en c = Inr (exec_handle ex)"
    by (auto split: sum.splits)
  with r h show ?thesis by auto
qed

lemma symbol_bind_called:
  assumes "ExecutorBindEX c \<in> set (snd (symbol_bind en obj ctx args kw))"
  shows "snd (symbol_bind en obj ctx args kw) =
           [ListArguments (bx_symbol_handle c), ListAuxiliaryStates (bx_symbol_handle c),
            ExecutorBindEX c]
         \<and> (case MXExecutorBindEX en c of
               Inl msg \<Rightarrow> fst (symbol_bind en obj ctx args kw) = Inl (MXNetError msg)
             | Inr eh \<Rightarrow> (\<exists>ex. fst (symbol_bind en obj ctx args kw) = Inr ex \<and> exec_handle ex = eh))"
proof -
  from bind_call_made [OF assms]
  obtain la a ah g gh aux s sh gr reqs g2c n ks ts ds se h dt di where st:
    "check_context ctx = Inr ()"
    "fst (symbol_list_arguments en obj) = Inr la"
    "get_ndarray_inputs ''args'' args la False = Inr (a, ah)"
    "setup_args_grad (kw_args_grad kw) a la = Inr (g, gh)"
    "fst (symbol_list_auxiliary_states en obj) = Inr aux"
    "setup_aux_states (kw_aux_states kw) aux = Inr (s, sh)"
    "setup_requirements en (kw_grad_req kw) la = Inr (gr, reqs)"
    "setup_group2ctx (kw_group2ctx kw) = Inr (g2c, n, ks, ts, ds)"
    "setup_shared_exec (kw_shared_exec kw) = Inr se"
    "mxnet_get_handle obj = Inr h"
    "mxnet_context_get_device_type_id ctx = Inr dt"
    "mxnet_context_get_device_id ctx = Inr di"
    "c = \<lparr> bx_symbol_handle = h, bx_dev_type = dt, bx_dev_id = di,
                  bx_num_map_keys = n, bx_map_keys = ks, bx_map_dev_types = ts,
                  bx_map_dev_ids = ds, bx_len = of_nat (RARRAY_LEN a), bx_in_args = ah,
                  bx_arg_grad_store = gh, bx_grad_req_type = reqs,
                  bx_aux_states_len = of_nat (RARRAY_LEN s), bx_aux_states = sh,
                  bx_shared_exec = se \<rparr>"
    by blast
  note r = symbol_bind_resolved [OF st]
  have h: "bx_symbol_handle c = h" by (simp add: st(13))
  from r h show ?thesis
    by (simp split: sum.splits)
qed

lemma bind_calls_nonempty:
  "bind_calls t \<noteq> [] \<Longrightarrow> \<exists>c. ExecutorBindEX c \<in> set t"
proof -
  assume "bind_calls t \<noteq> []"
  then obtain x where x: "x \<in> set t" "is_bind_call x"
    by (auto simp: bind_calls_def filter_empty_conv)
  have "is_bind_call x \<longrightarrow> (\<exists>c. x = ExecutorBindEX c)"
    by (cases x) simp_all
  with x show ?thesis by blast
qed

lemma setup_args_grad_Inl:
  "setup_args_grad g a la = Inl e \<Longrightarrow> setup_args_grad g a' la = Inl e"
  by (simp add: setup_args_grad_def split: if_splits)

lemma array_handles_length: "array_handles vs = Inr hs \<Longrightarrow> length hs = length vs"
  by (induction vs arbitrary: hs) (auto split: sum.splits if_splits)

lemma hash_inputs_length:
  "hash_inputs arg_key h am names = Inr (vs, hs) \<Longrightarrow>
   length vs = length names \<and> length hs = length names"
  by (induction names arbitrary: vs hs) (auto split: sum.splits if_splits option.splits)

lemma get_ndarray_inputs_length:
  "get_ndarray_inputs arg_key v names am = Inr (a, hs) \<Longrightarrow>
   RARRAY_LEN a = length names \<and> length hs = length names"
  by (cases v) (auto split: sum.splits if_splits dest: array_handles_length hash_inputs_length)

lemma setup_requirements_array:
  "setup_requirements en (Some (RArray items)) la =
     (case for_each (\<lambda>item. NUM2UINT (rb_hash_lookup (mxnet_grad_req_map en) item)) items of
        Inl e \<Rightarrow> Inl e
      | Inr reqs \<Rightarrow> Inr (RArray items, reqs))"
  by (simp add: setup_requirements_def default_grad_req_def)

lemma example_bind_short_reqs:
  "symbol_bind example_env (RSymbol (Addr 7)) (RContext 1 0)
      (RArray [RNDArray (Addr 4), RNDArray (Addr 5)])
      (no_kwargs\<lparr>kw_grad_req := Some (RArray [RSym ''add''])\<rparr>) =
     (Inr \<lparr> exec_handle = Addr 99, exec_symbol = RSymbol (Addr 7), exec_ctx = RContext 1 0,
            exec_grad_req = RArray [RSym ''add''], exec_group2ctx = Qnil,
            exec_arg_arrays = RArray [RNDArray (Addr 4), RNDArray (Addr 5)],
            exec_grad_arrays = Qnil, exec_aux_arrays = RArray [] \<rparr>,
      [ListArguments (Addr 7), ListAuxiliaryStates (Addr 7),
       ExecutorBindEX
         \<lparr> bx_symbol_handle = Addr 7, bx_dev_type = 1, bx_dev_id = 0,
           bx_num_map_keys = 0, bx_map_keys = None, bx_map_dev_types = None,
           bx_map_dev_ids = None, bx_len = 2, bx_in_args = [Addr 4, Addr 5],
           bx_arg_grad_store = [NULL, NULL], bx_grad_req_type = [3],
           bx_aux_states_len = 0, bx_aux_states = [], bx_shared_exec = NULL \<rparr>])"
  by (simp add: symbol_bind_def and_then_host_step and_then_cases check_context_def
      list_arguments_cases list_auxiliary_states_cases example_env_def example_grad_req_map_def
      no_kwargs_def setup_args_grad_def setup_aux_states_def undef_to_nil_def
      setup_requirements_def default_grad_req_def rb_hash_lookup_def rb_hash_lookup2_def
      setup_group2ctx_def setup_shared_exec_def CHECK_CALL_def host_step_def)

text \<open>
  Claim C1. When a step before the native call raises (the check of the device
  context, the listing of the arguments or of the auxiliary states, the resolution of
  \<^verbatim>\<open>args\<close>, \<^verbatim>\<open>args_grad\<close> or \<^verbatim>\<open>aux_states\<close>, the gradient requirements, the
  device map, the shared execution), the bind operation ends with a raised error and
  \<^verbatim>\<open>MXExecutorBindEX\<close> is not among the native calls made. In every run the operation
  either raises, with no call of the bind entry point or with the single call whose
  failure it reports, or returns the execution object that wraps the handle the single
  successful call gave.
\<close>

theorem bind_all_or_nothing:
  "((check_context ctx = Inl e
      \<or> fst (symbol_list_arguments en obj) = Inl e
      \<or> (\<exists>la. fst (symbol_list_arguments en obj) = Inr la
            \<and> (get_ndarray_inputs ''args'' args la False = Inl e
               \<or> (\<exists>a. setup_args_grad (kw_args_grad kw) a la = Inl e)
               \<or> setup_requirements en (kw_grad_req kw) la = Inl e))
      \<or> fst (symbol_list_auxiliary_states en obj) = Inl e
      \<or> (\<exists>aux. fst (symbol_list_auxiliary_states en obj) = Inr aux
            \<and> setup_aux_states (kw_aux_states kw) aux = Inl e)
      \<or> setup_group2ctx (kw_group2ctx kw) = Inl e
      \<or> setup_shared_exec (kw_shared_exec kw) = Inl e)
     \<longrightarrow> (\<exists>e'. fst (symbol_bind en obj ctx args kw) = Inl e')
         \<and> bind_calls (snd (symbol_bind en obj ctx args kw)) = [])
   \<and> ((\<exists>e'. fst (symbol_bind en obj ctx args kw) = Inl e'
          \<and> (bind_calls (snd (symbol_bind en obj ctx args kw)) = []
             \<or> (\<exists>c msg. bind_calls (snd (symbol_bind en obj ctx args kw)) = [ExecutorBindEX c]
                   \<and> MXExecutorBindEX en c = Inl msg \<and> e' = MXNetError msg)))
       \<or> (\<exists>ex c. fst (symbol_bind en obj ctx args kw) = Inr ex
             \<and> bind_calls (snd (symbol_bind en obj ctx args kw)) = [ExecutorBindEX c]
             \<and> MXExecutorBindEX en c = Inr (exec_handle ex)))"
proof (intro conjI impI)
  assume fails: "check_context ctx = Inl e
      \<or> fst (symbol_list_arguments en obj) = Inl e
      \<or> (\<exists>la. fst (symbol_list_arguments en obj) = Inr la
            \<and> (get_ndarray_inputs ''args'' args la False = Inl e
               \<or> (\<exists>a. setup_args_grad (kw_args_grad kw) a la = Inl e)
               \<or> setup_requirements en (kw_grad_req kw) la = Inl e))
      \<or> fst (symbol_list_auxiliary_states en obj) = Inl e
      \<or> (\<exists>aux. fst (symbol_list_auxiliary_states en obj) = Inr aux
            \<and> setup_aux_states (kw_aux_states kw) aux = Inl e)
      \<or> setup_group2ctx (kw_group2ctx kw) = Inl e
      \<or> setup_shared_exec (kw_shared_exec kw) = Inl e"
  have none: "bind_calls (snd (symbol_bind en obj ctx args kw)) = []"
  proof (rule ccontr)
    assume "bind_calls (snd (symbol_bind en obj ctx args kw)) \<noteq> []"
    then obtain c where "ExecutorBindEX c \<in> set (snd (symbol_bind en obj ctx args kw))"
      using bind_calls_nonempty by blast
    from bind_call_made [OF this]
    obtain la a ah g gh aux s sh gr reqs g2c n ks ts ds se where st:
      "check_context ctx = Inr ()"
      "fst (symbol_list_arguments en obj) = Inr la"
      "get_ndarray_inputs ''args'' args la False = Inr (a, ah)"
      "setup_args_grad (kw_args_grad kw) a la = Inr (g, gh)"
      "fst (symbol_list_auxiliary_states en obj) = Inr aux"
      "setup_aux_states (kw_aux_states kw) aux = Inr (s, sh)"
      "setup_requirements en (kw_grad_req kw) la = Inr (gr, reqs)"
      "setup_group2ctx (kw_group2ctx kw) = Inr (g2c, n, ks, ts, ds)"
      "setup_shared_exec (kw_shared_exec kw) = Inr se"
      by blast
    have "\<not> (\<exists>a'. setup_args_grad (kw_args_grad kw) a' la = Inl e)"
      using st(4) setup_args_grad_Inl [of "kw_args_grad kw" _ la e a] by auto
    with fails st show False by auto
  qed
  have "\<exists>e'. fst (symbol_bind en obj ctx args kw) = Inl e'"
  proof (cases "fst (symbol_bind en obj ctx args kw)")
    case (Inl e')
    then show ?thesis by blast
  next
    case (Inr ex)
    from symbol_bind_success [OF this] none show ?thesis
      by (auto simp: bind_calls_def)
  qed
  then show "\<exists>e'. fst (symbol_bind en obj ctx args kw) = Inl e'" .
  from none show "bind_calls (snd (symbol_bind en obj ctx args kw)) = []" .
next
  show "(\<exists>e'. fst (symbol_bind en obj ctx args kw) = Inl e'
          \<and> (bind_calls (snd (symbol_bind en obj ctx args kw)) = []
             \<or> (\<exists>c msg. bind_calls (snd (symbol_bind en obj ctx args kw)) = [ExecutorBindEX c]
                   \<and> MXExecutorBindEX en c = Inl msg \<and> e' = MXNetError msg)))
       \<or> (\<exists>ex c. fst (symbol_bind en obj ctx args kw) = Inr ex
             \<and> bind_calls (snd (symbol_bind en obj ctx args kw)) = [ExecutorBindEX c]
             \<and> MXExecutorBindEX en c = Inr (exec_handle ex))"
  proof (cases "fst (symbol_bind en obj ctx args kw)")
    case (Inr ex)
    from symbol_bind_success [OF this] obtain c where
      "snd (symbol_bind en obj ctx args kw) =
         [ListArguments (bx_symbol_handle c), ListAuxiliaryStates (bx_symbol_handle c), ExecutorBindEX c]"
      "MXExecutorBindEX en c = Inr (exec_handle ex)"
      by blast
    with Inr show ?thesis by (simp add: bind_calls_def)
  next
    case (Inl e')
    show ?thesis
    proof (cases "bind_calls (snd (symbol_bind en obj ctx args kw)) = []")
      case True
      with Inl show ?thesis by simp
    next
      case False
      then obtain c where "ExecutorBindEX c \<in> set (snd (symbol_bind en obj ctx args kw))"
        using bind_calls_nonempty by blast
      from symbol_bind_called [OF this] have
        t: "snd (symbol_bind en obj ctx args kw) =
           [ListArguments (bx_symbol_handle c), ListAuxiliaryStates (bx_symbol_handle c), ExecutorBindEX c]"
        and r: "(case MXExecutorBindEX en c of
               Inl msg \<Rightarrow> fst (symbol_bind en obj ctx args kw) = Inl (MXNetError msg)
             | Inr eh \<Rightarrow> (\<exists>ex. fst (symbol_bind en obj ctx args kw) = Inr ex \<and> exec_handle ex = eh))"
        by simp_all
      from r Inl obtain msg where "MXExecutorBindEX en c = Inl msg" "e' = MXNetError msg"
        by (cases "MXExecutorBindEX en c") auto
      with t Inl show ?thesis by (simp add: bind_calls_def)
    qed
  qed
qed

theorem bind_all_or_nothing_witness:
  "check_context Qnil = Inl (TypeError [Lit ''Context type error''])
   \<and> (\<exists>e'. fst (symbol_bind example_env (RSymbol (Addr 1)) Qnil
               (RArray [RNDArray (Addr 4), RNDArray (Addr 5)]) no_kwargs) = Inl e')
   \<and> bind_calls (snd (symbol_bind example_env (RSymbol (Addr 1)) Qnil
               (RArray [RNDArray (Addr 4), RNDArray (Addr 5)]) no_kwargs)) = []"
proof -
  have "check_context Qnil = Inl (TypeError [Lit ''Context type error''])"
    by (simp add: check_context_def)
  with bind_all_or_nothing [of Qnil "TypeError [Lit ''Context type error'']" example_env
      "RSymbol (Addr 1)" "RArray [RNDArray (Addr 4), RNDArray (Addr 5)]" no_kwargs]
  show ?thesis by blast
qed

text \<open>
  Claim C7. For a sequence of labels the requirement array has one code for each
  element of the sequence: the step does not look at the argument list, and the only
  errors it can raise are those of the conversion of an element. The native call is
  then told the number of arguments, so with a sequence shorter than the argument list
  the engine is handed fewer requirement codes than the length it is given.
\<close>

theorem sequence_grad_req_unchecked:
  "(list_all (\<lambda>item. NUM2UINT (rb_hash_lookup (mxnet_grad_req_map en) item) = Inr (code item)) items \<longrightarrow>
      setup_requirements en (Some (RArray items)) listed_arguments =
        Inr (RArray items, map code items)
      \<and> length (map code items) = length items)
   \<and> setup_requirements en (Some (RArray items)) listed_arguments =
       setup_requirements en (Some (RArray items)) other_arguments
   \<and> (setup_requirements en (Some (RArray items)) listed_arguments = Inl e \<longrightarrow>
        (\<exists>item \<in> set items. NUM2UINT (rb_hash_lookup (mxnet_grad_req_map en) item) = Inl e))
   \<and> (kw_grad_req kw = Some (RArray items)
        \<and> ExecutorBindEX c \<in> set (snd (symbol_bind en obj ctx args kw)) \<longrightarrow>
        length (bx_grad_req_type c) = length items
        \<and> (\<exists>la. fst (symbol_list_arguments en obj) = Inr la
              \<and> bx_len c = of_nat (length la)
              \<and> (length items < length la \<and> length la < 2 ^ 32 \<longrightarrow> reqs_out_of_bounds c)))"
proof (intro conjI impI)
  assume "list_all (\<lambda>item. NUM2UINT (rb_hash_lookup (mxnet_grad_req_map en) item) = Inr (code item)) items"
  then show "setup_requirements en (Some (RArray items)) listed_arguments =
        Inr (RArray items, map code items)"
    by (simp add: setup_requirements_array for_each_all_ok)
next
  show "length (map code items) = length items" by simp
next
  show "setup_requirements en (Some (RArray items)) listed_arguments =
       setup_requirements en (Some (RArray items)) other_arguments"
    by (simp add: setup_requirements_array)
next
  assume "setup_requirements en (Some (RArray items)) listed_arguments = Inl e"
  then have "for_each (\<lambda>item. NUM2UINT (rb_hash_lookup (mxnet_grad_req_map en) item)) items = Inl e"
    by (simp add: setup_requirements_array split: sum.splits)
  then show "\<exists>item \<in> set items. NUM2UINT (rb_hash_lookup (mxnet_grad_req_map en) item) = Inl e"
    by (rule for_each_Inl)
next
  assume a: "kw_grad_req kw = Some (RArray items)
        \<and> ExecutorBindEX c \<in> set (snd (symbol_bind en obj ctx args kw))"
  then have "ExecutorBindEX c \<in> set (snd (symbol_bind en obj ctx args kw))" by simp
  from bind_call_made [OF this] a
  obtain la a' ah gr reqs where st:
    "fst (symbol_list_arguments en obj) = Inr la"
    "get_ndarray_inputs ''args'' args la False = Inr (a', ah)"
    "setup_requirements en (Some (RArray items)) la = Inr (gr, reqs)"
    "bx_len c = of_nat (RARRAY_LEN a')"
    "bx_grad_req_type c = reqs"
    by auto
  from st(3) have "for_each (\<lambda>item. NUM2UINT (rb_hash_lookup (mxnet_grad_req_map en) item)) items = Inr reqs"
    by (simp add: setup_requirements_array split: sum.splits)
  then have len: "length reqs = length items"
    by (rule for_each_length)
  from get_ndarray_inputs_length [OF st(2)] have n: "RARRAY_LEN a' = length la"
    by simp
  have oob: "length items < length la \<and> length la < 2 ^ 32 \<longrightarrow> reqs_out_of_bounds c"
  proof
    assume b: "length items < length la \<and> length la < 2 ^ 32"
    then have "unat (of_nat (length la) :: 32 word) = length la"
      by (simp add: unat_of_nat)
    with b st(4,5) len n show "reqs_out_of_bounds c"
      by (simp add: reqs_out_of_bounds_def)
  qed
  from len st(5) show "length (bx_grad_req_type c) = length items" by simp
  from st(1,4) n oob show "\<exists>la. fst (symbol_list_arguments en obj) = Inr la
              \<and> bx_len c = of_nat (length la)
              \<and> (length items < length la \<and> length la < 2 ^ 32 \<longrightarrow> reqs_out_of_bounds c)"
    by auto
qed

theorem sequence_grad_req_unchecked_witness:
  "\<exists>c. ExecutorBindEX c \<in> set (snd (symbol_bind example_env (RSymbol (Addr 7)) (RContext 1 0)
            (RArray [RNDArray (Addr 4), RNDArray (Addr 5)])
            (no_kwargs\<lparr>kw_grad_req := Some (RArray [RSym ''add''])\<rparr>)))
       \<and> bx_grad_req_type c = [3] \<and> bx_len c = 2 \<and> reqs_out_of_bounds c"
proof -
  define c where "c = \<lparr> bx_symbol_handle = Addr 7, bx_dev_type = 1, bx_dev_id = 0,
           bx_num_map_keys = 0, bx_map_keys = None, bx_map_dev_types = None,
           bx_map_dev_ids = None, bx_len = (2 :: mx_uint), bx_in_args = [Addr 4, Addr 5],
           bx_arg_grad_store = [NULL, NULL], bx_grad_req_type = [3 :: mx_uint],
           bx_aux_states_len = 0, bx_aux_states = [], bx_shared_exec = NULL \<rparr>"
  have m: "ExecutorBindEX c \<in> set (snd (symbol_bind example_env (RSymbol (Addr 7)) (RContext 1 0)
            (RArray [RNDArray (Addr 4), RNDArray (Addr 5)])
            (no_kwargs\<lparr>kw_grad_req := Some (RArray [RSym ''add''])\<rparr>)))"
    by (simp add: example_bind_short_reqs c_def)
  have la: "fst (symbol_list_arguments example_env (RSymbol (Addr 7))) = Inr [RSym ''a'', RSym ''b'']"
    by (simp add: list_arguments_cases example_env_def)
  have k: "kw_grad_req (no_kwargs\<lparr>kw_grad_req := Some (RArray [RSym ''add''])\<rparr>) = Some (RArray [RSym ''add''])"
    by simp
  from sequence_grad_req_unchecked [of example_env "\<lambda>x. 3" "[RSym ''add'']" "[]" "[]" "MXNetError []"
      "no_kwargs\<lparr>kw_grad_req := Some (RArray [RSym ''add''])\<rparr>" c "RSymbol (Addr 7)" "RContext 1 0"
      "RArray [RNDArray (Addr 4), RNDArray (Addr 5)]"] m k la
  have "reqs_out_of_bounds c" by simp
  with m show ?thesis by (auto simp: c_def)
qed

text \<open>
  Claim C9. A missing or nil \<^verbatim>\<open>aux_states\<close> is resolved as the empty sequence with
  missing values disallowed. For a graph with auxiliary states this step raises the
  length error that names \<^verbatim>\<open>aux_states\<close>: the bind operation always fails without
  reaching the native bind call, and fails with this error once the context check and
  the resolution of \<^verbatim>\<open>args\<close> and \<^verbatim>\<open>args_grad\<close>, which come first, have passed. A
  missing \<^verbatim>\<open>args_grad\<close>, in contrast, resolves to an array of \<open>NULL\<close> handles.
\<close>

theorem aux_states_required:
  "setup_args_grad None a la = Inr (Qnil, replicate (RARRAY_LEN a) NULL)
   \<and> ((kw_aux_states kw = None \<or> kw_aux_states kw = Some Qnil)
        \<and> fst (symbol_list_auxiliary_states en obj) = Inr aux \<and> aux \<noteq> [] \<longrightarrow>
        setup_aux_states (kw_aux_states kw) aux =
          Inl (ArgError [Lit ''Length of '', Lit ''aux_states'',
                         Lit '' does not match the number of arguments''])
        \<and> (\<exists>e. fst (symbol_bind en obj ctx args kw) = Inl e)
        \<and> bind_calls (snd (symbol_bind en obj ctx args kw)) = []
        \<and> (check_context ctx = Inr ()
             \<and> fst (symbol_list_arguments en obj) = Inr la
             \<and> get_ndarray_inputs ''args'' args la False = Inr (a, ah)
             \<and> setup_args_grad (kw_args_grad kw) a la = Inr (g, gh) \<longrightarrow>
             fst (symbol_bind en obj ctx args kw) =
               Inl (ArgError [Lit ''Length of '', Lit ''aux_states'',
                              Lit '' does not match the number of arguments''])))"
proof (intro conjI impI)
  show "setup_args_grad None a la = Inr (Qnil, replicate (RARRAY_LEN a) NULL)"
    by (simp add: setup_args_grad_def undef_to_nil_def)
next
  assume h: "(kw_aux_states kw = None \<or> kw_aux_states kw = Some Qnil)
        \<and> fst (symbol_list_auxiliary_states en obj) = Inr aux \<and> aux \<noteq> []"
  then show aux: "setup_aux_states (kw_aux_states kw) aux =
          Inl (ArgError [Lit ''Length of '', Lit ''aux_states'',
                         Lit '' does not match the number of arguments''])"
    by (auto simp: setup_aux_states_def undef_to_nil_def)
  have none: "bind_calls (snd (symbol_bind en obj ctx args kw)) = []"
  proof (rule ccontr)
    assume "bind_calls (snd (symbol_bind en obj ctx args kw)) \<noteq> []"
    then obtain c where "ExecutorBindEX c \<in> set (snd (symbol_bind en obj ctx args kw))"
      using bind_calls_nonempty by blast
    from bind_call_made [OF this] h aux show False by auto
  qed
  then show "bind_calls (snd (symbol_bind en obj ctx args kw)) = []" .
  show "\<exists>e. fst (symbol_bind en obj ctx args kw) = Inl e"
  proof (cases "fst (symbol_bind en obj ctx args kw)")
    case (Inl e')
    then show ?thesis by blast
  next
    case (Inr ex)
    from symbol_bind_success [OF this] none show ?thesis
      by (auto simp: bind_calls_def)
  qed
  assume st: "check_context ctx = Inr ()
             \<and> fst (symbol_list_arguments en obj) = Inr la
             \<and> get_ndarray_inputs ''args'' args la False = Inr (a, ah)
             \<and> setup_args_grad (kw_args_grad kw) a la = Inr (g, gh)"
  from h have "fst (symbol_list_auxiliary_states en obj) = Inr aux" by simp
  with st aux show "fst (symbol_bind en obj ctx args kw) =
               Inl (ArgError [Lit ''Length of '', Lit ''aux_states'',
                              Lit '' does not match the number of arguments''])"
    unfolding symbol_bind_def
    by (simp add: and_then_host_step and_then_cases host_step_def)
qed

theorem aux_states_required_witness:
  "fst (symbol_bind example_env (RSymbol (Addr 2)) (RContext 1 0)
          (RArray [RNDArray (Addr 4), RNDArray (Addr 5)]) no_kwargs) =
     Inl (ArgError [Lit ''Length of '', Lit ''aux_states'',
                    Lit '' does not match the number of arguments''])
   \<and> bind_calls (snd (symbol_bind example_env (RSymbol (Addr 2)) (RContext 1 0)
          (RArray [RNDArray (Addr 4), RNDArray (Addr 5)]) no_kwargs)) = []"
proof -
  have 1: "kw_aux_states no_kwargs = None" by (simp add: no_kwargs_def)
  have 2: "fst (symbol_list_auxiliary_states example_env (RSymbol (Addr 2))) = Inr [RSym ''m'']"
    by (simp add: list_auxiliary_states_cases example_env_def)
  have 3: "check_context (RContext 1 0) = Inr ()" by (simp add: check_context_def)
  have 4: "fst (symbol_list_arguments example_env (RSymbol (Addr 2))) = Inr [RSym ''a'', RSym ''b'']"
    by (simp add: list_arguments_cases example_env_def)
  have 5: "get_ndarray_inputs ''args'' (RArray [RNDArray (Addr 4), RNDArray (Addr 5)])
             [RSym ''a'', RSym ''b''] False =
           Inr (RArray [RNDArray (Addr 4), RNDArray (Addr 5)], [Addr 4, Addr 5])"
    by simp
  have 6: "setup_args_grad (kw_args_grad no_kwargs) (RArray [RNDArray (Addr 4), RNDArray (Addr 5)])
             [RSym ''a'', RSym ''b''] = Inr (Qnil, [NULL, NULL])"
    by (simp add: setup_args_grad_def undef_to_nil_def no_kwargs_def)
  from aux_states_required [of "RArray [RNDArray (Addr 4), RNDArray (Addr 5)]" "[RSym ''a'', RSym ''b'']"
      no_kwargs example_env "RSymbol (Addr 2)" "[RSym ''m'']" "RContext 1 0"
      "RArray [RNDArray (Addr 4), RNDArray (Addr 5)]" "[Addr 4, Addr 5]" Qnil "[NULL, NULL]"]
    1 2 3 4 5 6
  show ?thesis by simp
qed

end
